theory Spec2Isabelle
  imports Main "HOL-Library.AList"
begin

section \<open>Values, objects, references\<close>

text \<open>
  The two bindings of the repository, \<^verbatim>\<open>datastore.firestore-browser.ts\<close> and its
  server twin \<^verbatim>\<open>datastore.firestore-node.ts\<close>, are modelled together: a definition takes
  the binding as its first argument where the two sources differ, and has one text
  where they agree.

  A JavaScript object is an association list from field names to values, in insertion
  order. Caller objects live in a heap (\<open>objs\<close>), addressed by natural numbers, since
  \<^verbatim>\<open>create\<close> mutates the object it is given.
\<close>

datatype binding = Browser | Node

datatype val = VStr string | VNum int

type_synonym obj = "(string \<times> val) list"

type_synonym ref = "string list"

datatype error = FirestoreError string string | Error string

fun message :: "error \<Rightarrow> string" where
  "message (FirestoreError code msg) = msg"
| "message (Error msg) = msg"

subsection \<open>Strings\<close>

definition quote :: "string \<Rightarrow> string" where
  "quote s = [CHR 0x27] @ s @ [CHR 0x27]"

definition digit :: "nat \<Rightarrow> char" where
  "digit n = ''0123456789'' ! n"

function number_toString :: "nat \<Rightarrow> string" where
  "number_toString n =
     (if n < 10 then [digit n] else number_toString (n div 10) @ [digit (n mod 10)])"
  by pat_completeness auto
termination
  by (relation "measure (\<lambda>n. n)") auto

fun join :: "string \<Rightarrow> string list \<Rightarrow> string" where
  "join sep [] = []"
| "join sep [x] = x"
| "join sep (x # y # ys) = x @ sep @ join sep (y # ys)"

text \<open>
  \<^verbatim>\<open>key.replace(/:id/g, id)\<close>: every occurrence of \<^verbatim>\<open>:id\<close>, left to right. The id is
  one the store handed out; it holds no \<^verbatim>\<open>$\<close>, so the replacement is literal.
\<close>

fun replace_id :: "string \<Rightarrow> string \<Rightarrow> string" where
  "replace_id i [] = []"
| "replace_id i (c # cs) =
     (if c = CHR '':'' \<and> take 2 cs = ''id'' then i @ replace_id i (drop 2 cs)
      else c # replace_id i cs)"

text \<open>
  A path names a reference by its non-empty segments; \<^verbatim>\<open>docRef.id\<close> is the last one.
\<close>

fun split_on :: "char \<Rightarrow> string \<Rightarrow> string list" where
  "split_on c [] = [[]]"
| "split_on c (x # xs) =
     (if x = c then [] # split_on c xs
      else (case split_on c xs of [] \<Rightarrow> [[x]] | y # ys \<Rightarrow> (x # y) # ys))"

definition segments :: "string \<Rightarrow> ref" where
  "segments p = filter (\<lambda>s. s \<noteq> []) (split_on CHR ''/'' p)"

text \<open>
  The reference functions of the store's client refuse a malformed path before any
  request is sent; that refusal is not modelled. What the theorems say of an operation
  on a path is said of document paths and collection paths as the data model has
  them: slash-separated, no segment empty, an even number of segments for a document
  and an odd number for a collection.
\<close>

definition is_doc_path :: "string \<Rightarrow> bool" where
  "is_doc_path p =
     ([] \<notin> set (split_on CHR ''/'' p) \<and> even (length (split_on CHR ''/'' p)))"


definition ref_id :: "ref \<Rightarrow> string" where
  "ref_id r = (if r = [] then [] else last r)"

text \<open>\<^verbatim>\<open>Object.assign(target, source)\<close> and the assignment \<^verbatim>\<open>data.id = id\<close>.\<close>

definition assign :: "obj \<Rightarrow> obj \<Rightarrow> obj" where
  "assign target source = fold (\<lambda>(k, v). AList.update k v) source target"

definition set_id :: "string \<Rightarrow> obj \<Rightarrow> obj" where
  "set_id i data = AList.update ''id'' (VStr i) data"

text \<open>The text \<^verbatim>\<open>${record.id}\<close> of a template string.\<close>

definition id_text :: "obj \<Rightarrow> string" where
  "id_text data =
     (case map_of data ''id'' of
        None \<Rightarrow> ''undefined''
      | Some (VStr s) \<Rightarrow> s
      | Some (VNum n) \<Rightarrow> (if n < 0 then ''-'' else []) @ number_toString (nat \<bar>n\<bar>))"

section \<open>The document store behind the bindings\<close>

text \<open>
  The Firestore client is a collaborator outside the repository. It is modelled by what
  the bindings ask of it: a table of documents, identifiers handed out by the store
  (\<open>fresh\<close> at \<open>next_id\<close>), a rule \<open>fails\<close> saying which requests the store refuses and
  with which error, and a query evaluator \<open>planner\<close>. Every request is recorded in
  \<open>ops\<close>, in the order sent. A write copies the object it is given at the moment of the
  call. Requests in flight together settle in an order the store chooses: for \<open>n\<close>
  of them, the positions listed by \<open>settle_order n\<close>. A state is observed once every
  request sent has settled.

  A JavaScript number is an integer, \<^verbatim>\<open>NaN\<close>, or some other value (a fraction, an
  infinity).
\<close>

datatype direction = Asc | Desc

datatype cursor = CursorValue string | CursorDoc ref

datatype number = JsInt int | JsNaN | JsOther

record query =
  q_collection :: ref
  q_where :: "(string \<times> string \<times> val) list"
  q_orderBy :: "(string \<times> direction) list"
  q_limit :: "number option"
  q_startAfter :: "cursor option"

datatype staged_write = WSet ref obj | WUpdate ref obj | WDelete ref

datatype backend_op =
    OpAdd ref obj
  | OpGet ref
  | OpSet ref obj
  | OpSetMerge ref obj
  | OpDelete ref
  | OpQueryGet query
  | OpTxnGet ref
  | OpTxnSet ref obj
  | OpTxnUpdate ref obj
  | OpTxnDelete ref
  | OpCommit "staged_write list"

datatype logged = LStr string | LErr error | LObj obj | LUndefined

datatype console_call = ConsoleCall string "logged list"

record world =
  objs :: "nat \<Rightarrow> obj"
  docs :: "(ref \<times> obj) list"
  staged :: "staged_write list"
  next_id :: nat
  fresh :: "nat \<Rightarrow> string"
  fails :: "backend_op \<Rightarrow> error option"
  planner :: "query \<Rightarrow> (ref \<times> obj) list \<Rightarrow> (ref \<times> obj) list"
  settle_order :: "nat \<Rightarrow> nat list"
  ops :: "backend_op list"
  console :: "console_call list"

definition issue :: "backend_op \<Rightarrow> world \<Rightarrow> world" where
  "issue op w = w\<lparr>ops := ops w @ [op]\<rparr>"

definition log :: "console_call list \<Rightarrow> world \<Rightarrow> world" where
  "log calls w = w\<lparr>console := console w @ calls\<rparr>"

definition doc_get :: "ref \<Rightarrow> world \<Rightarrow> (error + obj option) \<times> world" where
  "doc_get r w =
     (case fails w (OpGet r) of
        Some e \<Rightarrow> (Inl e, issue (OpGet r) w)
      | None \<Rightarrow> (Inr (map_of (docs w) r), issue (OpGet r) w))"

text \<open>
  A write and a read are a request sent and, later, its settlement. Where an operation
  awaits its one request at once, the two follow each other.
\<close>

definition doc_set_settle :: "ref \<Rightarrow> obj \<Rightarrow> world \<Rightarrow> (error + unit) \<times> world" where
  "doc_set_settle r d w =
     (case fails w (OpSet r d) of
        Some e \<Rightarrow> (Inl e, w)
      | None \<Rightarrow> (Inr (), w\<lparr>docs := AList.update r d (docs w)\<rparr>))"

definition doc_set :: "ref \<Rightarrow> obj \<Rightarrow> world \<Rightarrow> (error + unit) \<times> world" where
  "doc_set r d w = doc_set_settle r d (issue (OpSet r d) w)"

definition merge_into :: "ref \<Rightarrow> obj \<Rightarrow> (ref \<times> obj) list \<Rightarrow> (ref \<times> obj) list" where
  "merge_into r d ds =
     AList.update r (case map_of ds r of None \<Rightarrow> assign [] d | Some old \<Rightarrow> assign old d) ds"

definition doc_set_merge_settle :: "ref \<Rightarrow> obj \<Rightarrow> world \<Rightarrow> (error + unit) \<times> world" where
  "doc_set_merge_settle r d w =
     (case fails w (OpSetMerge r d) of
        Some e \<Rightarrow> (Inl e, w)
      | None \<Rightarrow> (Inr (), w\<lparr>docs := merge_into r d (docs w)\<rparr>))"

definition doc_set_merge :: "ref \<Rightarrow> obj \<Rightarrow> world \<Rightarrow> (error + unit) \<times> world" where
  "doc_set_merge r d w = doc_set_merge_settle r d (issue (OpSetMerge r d) w)"


text \<open>\<^verbatim>\<open>collection.doc()\<close> reserves a reference under a store-assigned id.\<close>

definition new_doc :: "ref \<Rightarrow> world \<Rightarrow> ref \<times> world" where
  "new_doc c w = (c @ [fresh w (next_id w)], w\<lparr>next_id := Suc (next_id w)\<rparr>)"

definition col_add :: "ref \<Rightarrow> obj \<Rightarrow> world \<Rightarrow> (error + ref) \<times> world" where
  "col_add c d w =
     (case new_doc c w of (r, w1) \<Rightarrow>
        (case fails w1 (OpAdd c d) of
           Some e \<Rightarrow> (Inl e, issue (OpAdd c d) w1)
         | None \<Rightarrow> (Inr r, (issue (OpAdd c d) w1)\<lparr>docs := AList.update r d (docs w1)\<rparr>)))"

definition members :: "ref \<Rightarrow> (ref \<times> obj) list \<Rightarrow> (ref \<times> obj) list" where
  "members c ds = filter (\<lambda>(r, d). r \<noteq> [] \<and> butlast r = c) ds"

definition query_get :: "query \<Rightarrow> world \<Rightarrow> (error + (ref \<times> obj) list) \<times> world" where
  "query_get q w =
     (case fails w (OpQueryGet q) of
        Some e \<Rightarrow> (Inl e, issue (OpQueryGet q) w)
      | None \<Rightarrow> (Inr (planner w q (members (q_collection q) (docs w))), issue (OpQueryGet q) w))"

subsection \<open>Transactions of the store\<close>

text \<open>
  Writes on a transaction are staged, at once: staging answers or throws within the
  call. Reads are requests; they see the committed documents. The handler
  runs once; when it returns, the commit applies every staged write or none (the store
  may refuse the commit, and an \<^verbatim>\<open>update\<close> staged for a document that is not there makes
  it fail); when the handler rejects, nothing is applied.
\<close>

definition txn_get_settle :: "ref \<Rightarrow> world \<Rightarrow> (error + obj option) \<times> world" where
  "txn_get_settle r w =
     (case fails w (OpTxnGet r) of
        Some e \<Rightarrow> (Inl e, w)
      | None \<Rightarrow> (Inr (map_of (docs w) r), w))"

definition txn_get :: "ref \<Rightarrow> world \<Rightarrow> (error + obj option) \<times> world" where
  "txn_get r w = txn_get_settle r (issue (OpTxnGet r) w)"

definition txn_stage :: "backend_op \<Rightarrow> staged_write \<Rightarrow> world \<Rightarrow> (error + unit) \<times> world" where
  "txn_stage op wr w =
     (case fails w op of
        Some e \<Rightarrow> (Inl e, issue op w)
      | None \<Rightarrow> (Inr (), (issue op w)\<lparr>staged := staged w @ [wr]\<rparr>))"

fun apply_writes :: "(ref \<times> obj) list \<Rightarrow> staged_write list \<Rightarrow> error + (ref \<times> obj) list" where
  "apply_writes ds [] = Inr ds"
| "apply_writes ds (WSet r d # ws) = apply_writes (AList.update r d ds) ws"
| "apply_writes ds (WUpdate r d # ws) =
     (case map_of ds r of
        None \<Rightarrow> Inl (FirestoreError ''not-found'' ''No document to update'')
      | Some old \<Rightarrow> apply_writes (AList.update r (assign old d) ds) ws)"
| "apply_writes ds (WDelete r # ws) = apply_writes (AList.delete r ds) ws"

definition runTransaction ::
  "(world \<Rightarrow> (error + 'a) \<times> world) \<Rightarrow> world \<Rightarrow> (error + 'a) \<times> world" where
  "runTransaction updateFunction w =
     (case updateFunction (w\<lparr>staged := []\<rparr>) of
        (Inl e, w1) \<Rightarrow> (Inl e, w1\<lparr>staged := []\<rparr>)
      | (Inr v, w1) \<Rightarrow>
          (let w2 = (issue (OpCommit (staged w1)) w1)\<lparr>staged := []\<rparr> in
           case fails w1 (OpCommit (staged w1)) of
             Some e \<Rightarrow> (Inl e, w2)
           | None \<Rightarrow>
               (case apply_writes (docs w1) (staged w1) of
                  Inl e \<Rightarrow> (Inl e, w2)
                | Inr ds \<Rightarrow> (Inr v, w2\<lparr>docs := ds\<rparr>))))"

subsection \<open>Promise.all\<close>

text \<open>
  Over promises that are settled when they are made (the staging of writes on a
  transaction, which answers or throws within the call): each runs in its turn, their
  rejections are seen in the order of the list, and the result is the first of them,
  or all the values.
\<close>

fun promise_all_settled ::
  "(world \<Rightarrow> (error + 'a) \<times> world) list \<Rightarrow> world \<Rightarrow> (error + 'a list) \<times> world" where
  "promise_all_settled [] w = (Inr [], w)"
| "promise_all_settled (p # ps) w =
     (case p w of (r, w1) \<Rightarrow>
        (case promise_all_settled ps w1 of (rs, w2) \<Rightarrow>
           (case r of
              Inl e \<Rightarrow> (Inl e, w2)
            | Inr v \<Rightarrow> (case rs of Inl e \<Rightarrow> (Inl e, w2) | Inr vs \<Rightarrow> (Inr (v # vs), w2)))))"

text \<open>
  Over requests in flight, already sent in the order of the list. They settle in the
  order the store chooses: \<open>arrival\<close> makes of \<open>settle_order\<close> a list of every position
  below \<open>n\<close>, each once. A settlement runs the rest of its operation (\<open>ps ! i\<close>, the
  part of the operation after its \<^verbatim>\<open>await\<close>). The first rejection to arrive rejects
  the whole, and the catch block around the \<^verbatim>\<open>await\<close> of the whole (\<open>on_reject\<close>) runs
  then; the requests still in flight settle all the same. A whole that is fulfilled
  carries the values in the order of the list. The state returned is the one reached
  when every request has settled.
\<close>

definition arrival :: "nat \<Rightarrow> world \<Rightarrow> nat list" where
  "arrival n w =
     (let s = remdups (filter (\<lambda>i. i < n) (settle_order w n))
      in s @ filter (\<lambda>i. i \<notin> set s) [0..<n])"

definition settle_one ::
  "(world \<Rightarrow> (error + 'a) \<times> world) list \<Rightarrow> (error \<Rightarrow> world \<Rightarrow> world) \<Rightarrow> nat
   \<Rightarrow> error option \<times> (nat \<times> 'a) list \<times> world \<Rightarrow> error option \<times> (nat \<times> 'a) list \<times> world" where
  "settle_one ps on_reject i st =
     (case st of (rejected, vals, w) \<Rightarrow>
        if i < length ps
        then (case (ps ! i) w of
                (Inl e, w1) \<Rightarrow>
                  (case rejected of
                     None \<Rightarrow> (Some e, vals, on_reject e w1)
                   | Some first \<Rightarrow> (rejected, vals, w1))
              | (Inr v, w1) \<Rightarrow> (rejected, vals @ [(i, v)], w1))
        else st)"

definition promise_all_pending ::
  "(world \<Rightarrow> (error + 'a) \<times> world) list \<Rightarrow> (error \<Rightarrow> world \<Rightarrow> world) \<Rightarrow> world
   \<Rightarrow> (error + 'a list) \<times> world" where
  "promise_all_pending ps on_reject w =
     (case fold (settle_one ps on_reject) (arrival (length ps) w) (None, [], w) of
        (Some e, vals, w1) \<Rightarrow> (Inl e, w1)
      | (None, vals, w1) \<Rightarrow> (Inr (List.map_filter (map_of vals) [0..<length ps]), w1))"

section \<open>Diagnostics\<close>

abbreviation c_error :: "logged \<Rightarrow> console_call" where
  "c_error x \<equiv> ConsoleCall ''error'' [x]"

abbreviation c_log :: "logged \<Rightarrow> console_call" where
  "c_log x \<equiv> ConsoleCall ''log'' [x]"

abbreviation c_info :: "logged \<Rightarrow> console_call" where
  "c_info x \<equiv> ConsoleCall ''info'' [x]"

abbreviation c_dir :: "logged \<Rightarrow> console_call" where
  "c_dir x \<equiv> ConsoleCall ''dir'' [x]"

abbreviation c_groupCollapsed :: "logged \<Rightarrow> console_call" where
  "c_groupCollapsed x \<equiv> ConsoleCall ''groupCollapsed'' [x]"

abbreviation c_groupEnd :: console_call where
  "c_groupEnd \<equiv> ConsoleCall ''groupEnd'' []"

definition logged_data :: "obj option \<Rightarrow> logged" where
  "logged_data data = (case data of None \<Rightarrow> LUndefined | Some d \<Rightarrow> LObj d)"

fun printError :: "binding \<Rightarrow> error \<Rightarrow> string \<Rightarrow> obj option \<Rightarrow> console_call list" where
  "printError Browser error operationName data =
     [c_groupCollapsed (LStr (''Error '' @ quote (message error) @ '' during '' @ operationName)),
      c_log (LStr ''Details:''),
      c_error (LErr error)]
     @ (case data of None \<Rightarrow> [] | Some d \<Rightarrow> [c_log (LStr ''Data:''), c_dir (LObj d)])
     @ [c_groupEnd]"
| "printError Node error operationName data =
     [c_error (LStr (''* Caught error during '' @ operationName @ '':'')),
      c_error (LErr error),
      c_info (LStr ''* Debug information''),
      c_info (LStr ''* Object view of error:''),
      c_dir (LErr error),
      c_log (LStr ''* Data being set:''),
      c_dir (logged_data data),
      ConsoleCall ''log'' []]"

definition handleError ::
  "binding \<Rightarrow> error \<Rightarrow> string \<Rightarrow> obj option \<Rightarrow> world \<Rightarrow> (error + 'a) \<times> world" where
  "handleError b error operationName data w =
     (Inl error, log (printError b error operationName data) w)"

text \<open>The text \<^verbatim>\<open>${keys.length} keys: ${keys.join(', ')}\<close> shared by the composite operations.\<close>

definition keys_text :: "string list \<Rightarrow> string" where
  "keys_text keys = number_toString (length keys) @ '' keys: '' @ join '', '' keys"

text \<open>
  The \<^verbatim>\<open>Debug Details\<close> lines of the composite operations: grouped in the browser
  binding, flat \<^verbatim>\<open>console.info\<close> lines in most catch blocks of the server binding.
\<close>

definition debug_grouped :: "error \<Rightarrow> string \<Rightarrow> obj \<Rightarrow> console_call list" where
  "debug_grouped e label data =
     [c_groupCollapsed (LStr ''Debug Details''),
      c_dir (LStr ''Object view of error:''),
      c_dir (LErr e),
      c_log (LStr label),
      c_dir (LObj data),
      c_groupEnd]"

definition debug_flat :: "error \<Rightarrow> string \<Rightarrow> logged \<Rightarrow> obj \<Rightarrow> console_call list" where
  "debug_flat e method label data =
     [c_info (LStr ''Debug Details''),
      c_info (LStr ''Object view of error:''),
      c_dir (LErr e),
      ConsoleCall method [label],
      c_dir (LObj data)]"

definition fetch_failed :: "binding \<Rightarrow> error \<Rightarrow> string \<Rightarrow> string list \<Rightarrow> console_call list" where
  "fetch_failed b e primaryKey mirrorKeys =
     [c_error (LStr (''Caught error while fetching content for mirroring from ''
        @ quote primaryKey @ '' (would have mirrored to '' @ keys_text mirrorKeys @ '')'')),
      c_error (LErr e)]
     @ (case b of
          Browser \<Rightarrow>
            [c_groupCollapsed (LStr ''Debug Details''),
             c_dir (LStr ''Object view of error:''),
             c_dir (LErr e),
             c_groupEnd]
        | Node \<Rightarrow>
            [c_info (LStr ''Debug Details''),
             c_info (LStr ''Object view of error:''),
             c_dir (LErr e)])"

definition mirroring_failed :: "error \<Rightarrow> string \<Rightarrow> string list \<Rightarrow> console_call list" where
  "mirroring_failed e primaryKey mirrorKeys =
     [c_error (LStr (''Caught error while mirroring content from '' @ quote primaryKey
        @ '' to '' @ keys_text mirrorKeys)),
      c_error (LErr e)]"

definition creating_failed :: "error \<Rightarrow> string \<Rightarrow> string list \<Rightarrow> console_call list" where
  "creating_failed e collectionPath mirrorKeys =
     [c_error (LStr (''Caught error while creating entry in '' @ quote collectionPath
        @ '' (and mirroring to '' @ keys_text mirrorKeys @ '')'')),
      c_error (LErr e)]"

section \<open>FbTransaction\<close>

text \<open>
  The transaction handle. The staged writes of the open store transaction are the field
  \<open>staged\<close> of the state. The object \<^verbatim>\<open>data\<close> of \<^verbatim>\<open>create\<close> is an address: the object
  is written as it is at the call, then its \<^verbatim>\<open>id\<close> is assigned.
\<close>

definition FbTransaction_create ::
  "binding \<Rightarrow> string \<Rightarrow> nat \<Rightarrow> world \<Rightarrow> (error + nat) \<times> world" where
  "FbTransaction_create b collectionPath data w =
     (case new_doc (segments collectionPath) w of (docRef, w1) \<Rightarrow>
        (case txn_stage (OpTxnSet docRef (objs w1 data)) (WSet docRef (objs w1 data)) w1 of
           (Inl e, w2) \<Rightarrow>
             (case b of
                Browser \<Rightarrow>
                  handleError Browser e
                    (''datastoreTransaction.create('' @ quote collectionPath @ '', ...)'')
                    (Some (objs w2 data)) w2
              | Node \<Rightarrow>
                  (Inl e, log
                    [c_error (LStr (''Caught error during datastore transaction.create(''
                       @ quote collectionPath @ '', ...)'')),
                     c_error (LErr e),
                     c_groupCollapsed (LStr ''Debug information''),
                     c_log (LStr ''Data being saved:''),
                     c_dir (LObj (objs w2 data)),
                     c_groupEnd] w2))
         | (Inr u, w2) \<Rightarrow>
             (Inr data, w2\<lparr>objs := (objs w2)(data := set_id (ref_id docRef) (objs w2 data))\<rparr>)))"

definition FbTransaction_read ::
  "binding \<Rightarrow> string \<Rightarrow> world \<Rightarrow> (error + obj option) \<times> world" where
  "FbTransaction_read b docPath w =
     (case txn_get (segments docPath) w of
        (Inl e, w1) \<Rightarrow>
          (case b of
             Browser \<Rightarrow>
               handleError Browser e (''datastoreTransaction.read('' @ quote docPath @ '')'') None w1
           | Node \<Rightarrow>
               (Inl e, log
                 [c_error (LStr (''Caught error during datastore transaction.read(''
                    @ quote docPath @ '')'')),
                  c_error (LErr e),
                  c_groupCollapsed (LStr ''Debug Details''),
                  c_dir (LStr ''Object view of error:''),
                  c_dir (LErr e),
                  c_groupEnd] w1))
      | (Inr snapshot, w1) \<Rightarrow> (Inr snapshot, w1))"


definition FbTransaction_set ::
  "binding \<Rightarrow> string \<Rightarrow> obj \<Rightarrow> world \<Rightarrow> (error + unit) \<times> world" where
  "FbTransaction_set b docPath data w =
     (let docRef = segments docPath in
      case txn_stage (OpTxnSet docRef data) (WSet docRef data) w of
        (Inl e, w1) \<Rightarrow>
          (case b of
             Browser \<Rightarrow>
               handleError Browser e
                 (''datastoreTransaction.set('' @ quote docPath @ '', ...)'') (Some data) w1
           | Node \<Rightarrow>
               (Inl e, log
                 [c_error (LStr (''Caught error during datastore transaction.set(''
                    @ quote docPath @ '', ...)'')),
                  c_error (LErr e),
                  c_groupCollapsed (LStr ''Debug information''),
                  c_dir (LStr ''Object view of error:''),
                  c_dir (LErr e),
                  c_log (LStr ''Data being set:''),
                  c_dir (LObj data),
                  c_groupEnd] w1))
      | (Inr u, w1) \<Rightarrow> (Inr (), w1))"


definition FbTransaction_readAll ::
  "string list \<Rightarrow> world \<Rightarrow> (error + obj option list) \<times> world" where
  "FbTransaction_readAll docPaths w =
     (let docRefs = map (\<lambda>docPath. segments docPath) docPaths;
          sent = fold (\<lambda>x. issue (OpTxnGet x)) docRefs w
      in promise_all_pending (map (\<lambda>x. txn_get_settle x) docRefs) (\<lambda>e w1. w1) sent)"

section \<open>FbQuery\<close>

definition FbQuery_where :: "string \<Rightarrow> string \<Rightarrow> val \<Rightarrow> query \<Rightarrow> query" where
  "FbQuery_where fieldName operator v q = q\<lparr>q_where := q_where q @ [(fieldName, operator, v)]\<rparr>"

definition FbQuery_get :: "query \<Rightarrow> world \<Rightarrow> (error + obj list) \<times> world" where
  "FbQuery_get q w =
     (case query_get q w of
        (Inl e, w1) \<Rightarrow> (Inl e, w1)
      | (Inr snapshot, w1) \<Rightarrow> (Inr (map (\<lambda>x. snd x) snapshot), w1))"

section \<open>FbDataStore\<close>

record CollectionParams =
  p_order :: "(string \<times> direction) option"
  p_limit :: "number option"
  p_startAfter :: "string option"

text \<open>
  The optional chains \<^verbatim>\<open>params?.order\<close>, \<^verbatim>\<open>params?.limit\<close>, \<^verbatim>\<open>params?.startAfter\<close>, and
  what JavaScript takes for true in an \<^verbatim>\<open>if\<close>: a number other than 0 and \<^verbatim>\<open>NaN\<close>, a
  string other than the empty one. The query builders of the store's client check
  their arguments, each client in its own way (a limit that is not a positive integer,
  a cursor that does not fit the ordering); those checks are not modelled, and the
  builders here only record what they are given.
\<close>

definition params_order :: "CollectionParams option \<Rightarrow> (string \<times> direction) option" where
  "params_order params = (case params of None \<Rightarrow> None | Some p \<Rightarrow> p_order p)"

definition params_limit :: "CollectionParams option \<Rightarrow> number option" where
  "params_limit params = (case params of None \<Rightarrow> None | Some p \<Rightarrow> p_limit p)"

definition params_startAfter :: "CollectionParams option \<Rightarrow> string option" where
  "params_startAfter params = (case params of None \<Rightarrow> None | Some p \<Rightarrow> p_startAfter p)"

definition truthy_number :: "number option \<Rightarrow> bool" where
  "truthy_number x =
     (case x of
        None \<Rightarrow> False
      | Some (JsInt n) \<Rightarrow> n \<noteq> 0
      | Some JsNaN \<Rightarrow> False
      | Some JsOther \<Rightarrow> True)"

definition truthy_string :: "string option \<Rightarrow> bool" where
  "truthy_string x = (case x of None \<Rightarrow> False | Some s \<Rightarrow> s \<noteq> [])"

definition collection :: "string \<Rightarrow> query" where
  "collection collectionPath =
     \<lparr>q_collection = segments collectionPath, q_where = [], q_orderBy = [],
      q_limit = None, q_startAfter = None\<rparr>"

definition orderBy :: "string \<Rightarrow> direction \<Rightarrow> query \<Rightarrow> query" where
  "orderBy field dir q = q\<lparr>q_orderBy := q_orderBy q @ [(field, dir)]\<rparr>"

definition limit :: "number \<Rightarrow> query \<Rightarrow> query" where
  "limit n q = q\<lparr>q_limit := Some n\<rparr>"

definition startAfter :: "cursor \<Rightarrow> query \<Rightarrow> query" where
  "startAfter x q = q\<lparr>q_startAfter := Some x\<rparr>"

definition FbDataStore_set ::
  "binding \<Rightarrow> string \<Rightarrow> obj \<Rightarrow> world \<Rightarrow> (error + unit) \<times> world" where
  "FbDataStore_set b docPath data w =
     (case doc_set (segments docPath) data w of
        (Inl e, w1) \<Rightarrow>
          handleError b e (''datastore.set('' @ quote docPath @ '', ...)'') (Some data) w1
      | (Inr u, w1) \<Rightarrow> (Inr (), w1))"

definition FbDataStore_create ::
  "binding \<Rightarrow> string \<Rightarrow> nat \<Rightarrow> world \<Rightarrow> (error + nat) \<times> world" where
  "FbDataStore_create b collectionPath data w =
     (let colRef = segments collectionPath in
      case col_add colRef (objs w data) w of
        (Inl e, w1) \<Rightarrow>
          handleError b e (''datastore.create('' @ quote collectionPath @ '', ...)'')
            (Some (objs w1 data)) w1
      | (Inr docRef, w1) \<Rightarrow>
          (Inr data, w1\<lparr>objs := (objs w1)(data := set_id (ref_id docRef) (objs w1 data))\<rparr>))"

definition FbDataStore_transact ::
  "(world \<Rightarrow> (error + 'a) \<times> world) \<Rightarrow> world \<Rightarrow> (error + 'a) \<times> world" where
  "FbDataStore_transact handler w = runTransaction (\<lambda>fsTxn. handler fsTxn) w"

definition FbDataStore_read ::
  "binding \<Rightarrow> string \<Rightarrow> world \<Rightarrow> (error + obj option) \<times> world" where
  "FbDataStore_read b docPath w =
     (let docRef = segments docPath in
      case doc_get docRef w of
        (Inl e, w1) \<Rightarrow>
          handleError b e
            (case b of
               Browser \<Rightarrow> ''datastore.read('' @ quote docPath @ '')''
             | Node \<Rightarrow> ''datastore.read('' @ quote docPath @ '', ...)'')
            None w1
      | (Inr snap, w1) \<Rightarrow>
          (Inr (case snap of None \<Rightarrow> None | Some t \<Rightarrow> Some (set_id (ref_id docRef) t)), w1))"

definition FbDataStore_query :: "string \<Rightarrow> query" where
  "FbDataStore_query collectionPath = collection collectionPath"

text \<open>The query that \<^verbatim>\<open>listAll\<close> builds from its parameters, and \<^verbatim>\<open>listAll\<close> itself.\<close>

definition listAll_query :: "binding \<Rightarrow> string \<Rightarrow> CollectionParams option \<Rightarrow> query" where
  "listAll_query b collectionPath params =
     (let c0 = collection collectionPath;
          c1 = (case params_order params of
                  None \<Rightarrow> c0
                | Some order \<Rightarrow> orderBy (fst order) (snd order) c0);
          c2 = (case params_limit params of
                  None \<Rightarrow> c1
                | Some n \<Rightarrow>
                    (case b of
                       Browser \<Rightarrow> (if truthy_number (Some n) then limit n c1 else c1)
                     | Node \<Rightarrow> limit n c1));
          c3 = (case params_startAfter params of
                  None \<Rightarrow> c2
                | Some s \<Rightarrow>
                    (if truthy_string (Some s)
                     then (case b of
                             Browser \<Rightarrow> startAfter (CursorValue s) c2
                           | Node \<Rightarrow> startAfter (CursorDoc (segments s)) c2)
                     else c2))
      in c3)"

definition FbDataStore_listAll ::
  "binding \<Rightarrow> string \<Rightarrow> CollectionParams option \<Rightarrow> world \<Rightarrow> (error + obj list) \<times> world" where
  "FbDataStore_listAll b collectionPath params w =
     (case query_get (listAll_query b collectionPath params) w of
        (Inl e, w1) \<Rightarrow>
          handleError b e
            (case b of
               Browser \<Rightarrow> ''datastore.listAll('' @ quote collectionPath @ '')''
             | Node \<Rightarrow> ''datastore.listAll('' @ quote collectionPath @ '', ...)'')
            None w1
      | (Inr snap, w1) \<Rightarrow>
          (Inr (map (\<lambda>x. assign (assign [] (snd x)) [(''id'', VStr (ref_id (fst x)))]) snap),
           w1))"

text \<open>
  \<^verbatim>\<open>update\<close>: the write is sent within the call; \<open>FbDataStore_update_settle\<close> is what
  runs when it settles, the catch block included.
\<close>

definition FbDataStore_update_settle ::
  "binding \<Rightarrow> string \<Rightarrow> obj \<Rightarrow> world \<Rightarrow> (error + unit) \<times> world" where
  "FbDataStore_update_settle b docPath data w =
     (case doc_set_merge_settle (segments docPath) data w of
        (Inl e, w1) \<Rightarrow>
          handleError b e
            (case b of
               Browser \<Rightarrow> ''datastore.update('' @ quote docPath @ '')''
             | Node \<Rightarrow> ''datastore.update('' @ quote docPath @ '', ...)'')
            None w1
      | (Inr u, w1) \<Rightarrow> (Inr (), w1))"

definition FbDataStore_update ::
  "binding \<Rightarrow> string \<Rightarrow> obj \<Rightarrow> world \<Rightarrow> (error + unit) \<times> world" where
  "FbDataStore_update b docPath data w =
     FbDataStore_update_settle b docPath data
       (issue (OpSetMerge (segments docPath) data) w)"


definition FbDataStore_mirrorInTransaction ::
  "binding \<Rightarrow> string \<Rightarrow> string list \<Rightarrow> obj option \<Rightarrow> world \<Rightarrow> (error + unit) \<times> world" where
  "FbDataStore_mirrorInTransaction b primaryKey mirrorKeys data w =
     (case (case data of
              None \<Rightarrow> FbTransaction_read b primaryKey w
            | Some d \<Rightarrow> (Inr (Some d), w)) of
        (Inl e, w1) \<Rightarrow> (Inl e, log (fetch_failed b e primaryKey mirrorKeys) w1)
      | (Inr None, w1) \<Rightarrow> (Inl (Error (''No such object '' @ primaryKey)), w1)
      | (Inr (Some d), w1) \<Rightarrow>
          (case promise_all_settled (map (\<lambda>key. FbTransaction_set b key d) mirrorKeys) w1 of
             (Inl e, w2) \<Rightarrow>
               (Inl e, log
                 (mirroring_failed e primaryKey mirrorKeys
                  @ (case b of
                       Browser \<Rightarrow> debug_grouped e ''The data being mirrored:'' d
                     | Node \<Rightarrow> debug_flat e ''log'' (LStr ''The data being mirrored:'') d)) w2)
           | (Inr us, w2) \<Rightarrow> (Inr (), w2)))"

definition FbDataStore_mirror ::
  "binding \<Rightarrow> string \<Rightarrow> string list \<Rightarrow> obj option \<Rightarrow> world \<Rightarrow> (error + unit) \<times> world" where
  "FbDataStore_mirror b primaryKey mirrorKeys data w =
     (let primaryRef = segments primaryKey;
          mirrorRefs = map (\<lambda>x. segments x) mirrorKeys
      in case (case data of
                 None \<Rightarrow> doc_get primaryRef w
               | Some d \<Rightarrow> (Inr (Some d), w)) of
           (Inl e, w1) \<Rightarrow> (Inl e, log (fetch_failed b e primaryKey mirrorKeys) w1)
         | (Inr None, w1) \<Rightarrow> (Inl (Error (''No such object '' @ primaryKey)), w1)
         | (Inr (Some d), w1) \<Rightarrow>
             (let sent = fold (\<lambda>ref. issue (OpSet ref d)) mirrorRefs w1
              in case promise_all_pending (map (\<lambda>ref. doc_set_settle ref d) mirrorRefs)
                        (\<lambda>e. log
                           (mirroring_failed e primaryKey mirrorKeys
                            @ (case b of
                                 Browser \<Rightarrow> debug_grouped e ''The data being mirrored:'' d
                               | Node \<Rightarrow>
                                   debug_flat e ''info'' (LStr ''The data being mirrored:'') d)))
                        sent of
                   (Inl e, w2) \<Rightarrow> (Inl e, w2)
                 | (Inr us, w2) \<Rightarrow> (Inr (), w2)))"

text \<open>
  \<^verbatim>\<open>createAndMirror\<close>: the handler of its transaction, then the operation: the transaction
  and the statements that follow it in the source.
  In the last call the source passes \<^verbatim>\<open>record\<close> to \<^verbatim>\<open>map\<close>, not to \<^verbatim>\<open>mirror\<close>, so
  \<^verbatim>\<open>mirror\<close> runs with its \<^verbatim>\<open>data\<close> omitted.
\<close>

definition createAndMirror_transaction ::
  "binding \<Rightarrow> string \<Rightarrow> nat \<Rightarrow> string list \<Rightarrow> world \<Rightarrow> (error + unit) \<times> world" where
  "createAndMirror_transaction b collectionPath data mirrorKeys txn =
     (case FbTransaction_create b collectionPath data txn of
        (Inl e, w1) \<Rightarrow>
          (Inl e, log
            (creating_failed e collectionPath mirrorKeys
             @ (case b of
                  Browser \<Rightarrow> debug_grouped e ''The data being written:'' (objs w1 data)
                | Node \<Rightarrow>
                    debug_flat e ''info'' (LStr ''The data being written:'') (objs w1 data))) w1)
      | (Inr record, w1) \<Rightarrow>
          FbDataStore_mirrorInTransaction b
            (collectionPath @ ''/'' @ id_text (objs w1 record))
            (map (\<lambda>key. replace_id (id_text (objs w1 record)) key) mirrorKeys)
            (Some (objs w1 record)) w1)"

definition FbDataStore_createAndMirror ::
  "binding \<Rightarrow> string \<Rightarrow> nat \<Rightarrow> string list \<Rightarrow> world \<Rightarrow> (error + nat) \<times> world" where
  "FbDataStore_createAndMirror b collectionPath data mirrorKeys w =
     (case FbDataStore_transact (createAndMirror_transaction b collectionPath data mirrorKeys) w of
        (Inl e, w2) \<Rightarrow> (Inl e, w2)
      | (Inr u, w2) \<Rightarrow>
          (case FbDataStore_create b collectionPath data w2 of
             (Inl e, w3) \<Rightarrow>
               (Inl e, log
                 (creating_failed e collectionPath mirrorKeys
                  @ debug_grouped e ''The data being written:'' (objs w3 data)) w3)
           | (Inr record, w3) \<Rightarrow>
               (case FbDataStore_mirror b
                       (collectionPath @ ''/'' @ id_text (objs w3 record))
                       (map (\<lambda>key. replace_id (id_text (objs w3 record)) key) mirrorKeys)
                       None w3 of
                  (Inl e, w4) \<Rightarrow> (Inl e, w4)
                | (Inr u', w4) \<Rightarrow> (Inr record, w4))))"


section \<open>Reading the console and the store\<close>

text \<open>
  Whether some call to the console was handed a given value. The fields of the document
  at a reference (none when there is no document).
\<close>

fun call_args :: "console_call \<Rightarrow> logged list" where
  "call_args (ConsoleCall method args) = args"

definition prints :: "logged \<Rightarrow> console_call list \<Rightarrow> bool" where
  "prints x calls = list_ex (\<lambda>c. x \<in> set (call_args c)) calls"


section \<open>Live feeds\<close>

text \<open>
  \<^verbatim>\<open>lazyConnection\<close> wraps an observable in \<^verbatim>\<open>publish()\<close> and \<^verbatim>\<open>refCount()\<close>. The
  observable library is a collaborator; what the bindings rely on is modelled as a
  state: the consumers subscribed to the shared feed, the Subject of the open
  connection (each connection makes a new one, and closing the connection removes its
  only observer), the listener handle held in \<^verbatim>\<open>unsub\<close>, the listeners registered at
  the store, the requests made to the store, and what each consumer has received.
  A listener is named by the Subject it feeds.
\<close>

datatype target = DocTarget ref | QueryTarget query

datatype listen_op = OnSnapshot target bool nat | Unlisten nat

datatype 'v notification = Next 'v | Failed error

record ('s, 'v) listener_options =
  l_target :: target
  l_next :: "'s \<Rightarrow> 'v"
  l_error :: "(error \<Rightarrow> console_call list) option"

record 'v feed =
  consumers :: "nat list"
  connection :: "nat option"
  subjects :: nat
  unsub :: "nat option"
  listeners :: "nat list"
  requests :: "listen_op list"
  delivered :: "(nat \<times> 'v notification) list"
  stopped :: "error option"
  feed_console :: "console_call list"

datatype 's event =
    Subscribe nat
  | Unsubscribe nat
  | Snapshot nat 's
  | ListenerError nat error

definition lazyConnection :: "'v feed" where
  "lazyConnection =
     \<lparr>consumers = [], connection = None, subjects = 0, unsub = None, listeners = [],
      requests = [], delivered = [], stopped = None, feed_console = []\<rparr>"

text \<open>
  \<^verbatim>\<open>start\<close>: \<^verbatim>\<open>unsub = target.onSnapshot(...)\<close>; \<^verbatim>\<open>stop\<close>: \<^verbatim>\<open>unsub()\<close>. \<^verbatim>\<open>stop\<close> runs
  only in the teardown of a connection, after its \<^verbatim>\<open>start\<close>, so \<^verbatim>\<open>unsub\<close> is set then.
\<close>

definition start :: "('s, 'v) listener_options \<Rightarrow> nat \<Rightarrow> 'v feed \<Rightarrow> 'v feed" where
  "start options subject f =
     f\<lparr>unsub := Some subject,
       listeners := listeners f @ [subject],
       requests := requests f @ [OnSnapshot (l_target options) (l_error options \<noteq> None) subject]\<rparr>"

definition stop :: "'v feed \<Rightarrow> 'v feed" where
  "stop f =
     (case unsub f of
        None \<Rightarrow> f
      | Some l \<Rightarrow> f\<lparr>listeners := removeAll l (listeners f), requests := requests f @ [Unlisten l]\<rparr>)"

text \<open>
  The body of the observable: a new Subject, the observer subscribed to it, then
  \<^verbatim>\<open>options.start(subject)\<close>. Its teardown: \<^verbatim>\<open>subscription.unsubscribe()\<close>, then
  \<^verbatim>\<open>options.stop()\<close>.
\<close>

definition connect :: "('s, 'v) listener_options \<Rightarrow> 'v feed \<Rightarrow> 'v feed" where
  "connect options f =
     (let subject = subjects f
      in start options subject (f\<lparr>subjects := Suc subject, connection := Some subject\<rparr>))"

definition teardown :: "'v feed \<Rightarrow> 'v feed" where
  "teardown f = stop (f\<lparr>connection := None\<rparr>)"

text \<open>\<^verbatim>\<open>refCount()\<close>: the first consumer connects, the last one to leave tears down.\<close>

definition subscribe :: "('s, 'v) listener_options \<Rightarrow> nat \<Rightarrow> 'v feed \<Rightarrow> 'v feed" where
  "subscribe options c f =
     (if c \<in> set (consumers f) then f
      else (case stopped f of
              Some e \<Rightarrow> f\<lparr>delivered := delivered f @ [(c, Failed e)]\<rparr>
            | None \<Rightarrow>
                (let f1 = f\<lparr>consumers := consumers f @ [c]\<rparr>
                 in if connection f1 = None then connect options f1 else f1)))"

definition unsubscribe :: "nat \<Rightarrow> 'v feed \<Rightarrow> 'v feed" where
  "unsubscribe c f =
     (if c \<notin> set (consumers f) then f
      else (let f1 = f\<lparr>consumers := removeAll c (consumers f)\<rparr>
            in if consumers f1 = [] then teardown f1 else f1))"

text \<open>
  \<^verbatim>\<open>subject.next(v)\<close> and \<^verbatim>\<open>subject.error(e)\<close> on the Subject a listener feeds: they
  reach the consumers only while that Subject is the one of the open connection.
\<close>

definition subject_next :: "nat \<Rightarrow> 'v \<Rightarrow> 'v feed \<Rightarrow> 'v feed" where
  "subject_next subject v f =
     (if connection f = Some subject
      then f\<lparr>delivered := delivered f @ map (\<lambda>c. (c, Next v)) (consumers f)\<rparr>
      else f)"

definition subject_error :: "nat \<Rightarrow> error \<Rightarrow> 'v feed \<Rightarrow> 'v feed" where
  "subject_error subject e f =
     (if connection f = Some subject
      then (let f1 = teardown (f\<lparr>consumers := []\<rparr>)
            in f1\<lparr>delivered := delivered f1 @ map (\<lambda>c. (c, Failed e)) (consumers f),
                  stopped := Some e\<rparr>)
      else f)"

definition step :: "('s, 'v) listener_options \<Rightarrow> 's event \<Rightarrow> 'v feed \<Rightarrow> 'v feed" where
  "step options ev f =
     (case ev of
        Subscribe c \<Rightarrow> subscribe options c f
      | Unsubscribe c \<Rightarrow> unsubscribe c f
      | Snapshot l snap \<Rightarrow> subject_next l (l_next options snap) f
      | ListenerError l e \<Rightarrow>
          (let f1 = f\<lparr>listeners := removeAll l (listeners f)\<rparr>
           in case l_error options of
                None \<Rightarrow> f1
              | Some print \<Rightarrow>
                  subject_error l e (f1\<lparr>feed_console := feed_console f1 @ print e\<rparr>)))"

definition run :: "('s, 'v) listener_options \<Rightarrow> 's event list \<Rightarrow> 'v feed" where
  "run options evs = fold (step options) evs lazyConnection"

definition is_Subscribe :: "'s event \<Rightarrow> bool" where
  "is_Subscribe ev = (case ev of Subscribe c \<Rightarrow> True | _ \<Rightarrow> False)"



definition FbDataStore_watch ::
  "binding \<Rightarrow> string \<Rightarrow> (obj option, obj option) listener_options" where
  "FbDataStore_watch b docPath =
     \<lparr>l_target = DocTarget (segments docPath),
      l_next = (\<lambda>snap. snap),
      l_error = (case b of
                   Browser \<Rightarrow>
                     Some (\<lambda>error. printError Browser error (''watch('' @ quote docPath @ '')'') None)
                 | Node \<Rightarrow> None)\<rparr>"



text \<open>
  What holds of a feed after any events: it has a connection exactly when it has
  consumers, \<^verbatim>\<open>unsub\<close> then holds the listener of that connection, no other listener
  is registered, and the Subject of the connection is one already made. A listener is
  stale when its Subject was made and is not the one of the open connection; a feed is
  quiet when it has neither consumers nor a connection.
\<close>

definition feed_inv :: "'v feed \<Rightarrow> bool" where
  "feed_inv f \<longleftrightarrow>
     (consumers f = [] \<longleftrightarrow> connection f = None)
     \<and> (consumers f \<noteq> [] \<longrightarrow> unsub f = connection f)
     \<and> set (listeners f) \<subseteq> set_option (connection f)
     \<and> (\<forall>s. connection f = Some s \<longrightarrow> s < subjects f)"

definition stale :: "nat \<Rightarrow> 'v feed \<Rightarrow> bool" where
  "stale l f \<longleftrightarrow> l < subjects f \<and> connection f \<noteq> Some l"

definition quiet :: "'v feed \<Rightarrow> bool" where
  "quiet f \<longleftrightarrow> consumers f = [] \<and> connection f = None"

section \<open>Comparing the two bindings\<close>

text \<open>
  Two states are the same store when they differ at most in the console; two outcomes
  are the same when the results are equal and the states are the same store. The
  requests issued are part of the state.
\<close>

definition same_store :: "world \<Rightarrow> world \<Rightarrow> bool" where
  "same_store w1 w2 =
     (objs w1 = objs w2 \<and> docs w1 = docs w2 \<and> staged w1 = staged w2
      \<and> next_id w1 = next_id w2 \<and> fresh w1 = fresh w2 \<and> fails w1 = fails w2
      \<and> planner w1 = planner w2 \<and> settle_order w1 = settle_order w2 \<and> ops w1 = ops w2)"




section \<open>A store to run the operations on\<close>

text \<open>
  An empty store that refuses nothing, hands out the ids \<^verbatim>\<open>X0\<close>, \<^verbatim>\<open>X1\<close>, ..., answers a
  query with the members of its collection and settles requests in the order sent;
  every caller object is \<open>d\<close>.
\<close>

definition store_of :: "obj \<Rightarrow> world" where
  "store_of d =
     \<lparr>objs = (\<lambda>a. d), docs = [], staged = [], next_id = 0,
      fresh = (\<lambda>n. ''X'' @ number_toString n), fails = (\<lambda>op. None),
      planner = (\<lambda>q xs. xs), settle_order = (\<lambda>n. [0..<n]), ops = [], console = []\<rparr>"

definition permission_denied :: error where
  "permission_denied =
     FirestoreError ''permission-denied'' ''Missing or insufficient permissions.''"

text \<open>The same store, refusing the requests that satisfy \<open>p\<close>.\<close>

definition refusing :: "(backend_op \<Rightarrow> bool) \<Rightarrow> world \<Rightarrow> world" where
  "refusing p w = w\<lparr>fails := (\<lambda>op. if p op then Some permission_denied else None)\<rparr>"

definition is_OpSet :: "backend_op \<Rightarrow> bool" where
  "is_OpSet op = (case op of OpSet r d \<Rightarrow> True | _ \<Rightarrow> False)"

definition writes_to :: "ref \<Rightarrow> backend_op \<Rightarrow> bool" where
  "writes_to r op =
     (case op of OpSet r' d \<Rightarrow> r' = r | OpSetMerge r' d \<Rightarrow> r' = r | _ \<Rightarrow> False)"

section \<open>Basic facts\<close>

lemma ref_id_new: "ref_id (c @ [i]) = i"
  by (simp add: ref_id_def)

lemma map_of_set_id: "map_of (set_id i d) = (map_of d)(''id'' \<mapsto> VStr i)"
  by (simp add: set_id_def update_conv')

lemma FbDataStore_create_success:
  assumes "fst (FbDataStore_create b collectionPath data w) = Inr r"
  shows "r = data"
    and "objs (snd (FbDataStore_create b collectionPath data w))
         = (objs w)(data := set_id (fresh w (next_id w)) (objs w data))"
  using assms
  by (auto simp: FbDataStore_create_def col_add_def new_doc_def issue_def handleError_def
      Let_def ref_id_new split: option.splits)

lemma FbTransaction_create_success:
  assumes "fst (FbTransaction_create b collectionPath data w) = Inr r"
  shows "r = data"
    and "objs (snd (FbTransaction_create b collectionPath data w))
         = (objs w)(data := set_id (fresh w (next_id w)) (objs w data))"
  using assms
  by (auto simp: FbTransaction_create_def txn_stage_def new_doc_def issue_def handleError_def
      log_def ref_id_new split: option.splits binding.splits)

section \<open>create returns the caller's object\<close>

text \<open>
  Claim C10. A successful \<^verbatim>\<open>create\<close>, on the facade or on a transaction, returns the
  address of the object it was given. Afterwards the heap differs from the one before
  at that address only, and the object there differs in its \<^verbatim>\<open>id\<close> field only,
  which holds the id the store assigned.
\<close>

theorem create_returns_callers_object:
  assumes "create_op = FbDataStore_create b \<or> create_op = FbTransaction_create b"
    and "fst (create_op collectionPath data w) = Inr r"
  shows "r = data
    \<and> objs (snd (create_op collectionPath data w))
        = (objs w)(data := set_id (fresh w (next_id w)) (objs w data))
    \<and> map_of (objs (snd (create_op collectionPath data w)) data)
        = (map_of (objs w data))(''id'' \<mapsto> VStr (fresh w (next_id w)))"
proof -
  have "r = data \<and> objs (snd (create_op collectionPath data w))
        = (objs w)(data := set_id (fresh w (next_id w)) (objs w data))"
    using assms FbDataStore_create_success FbTransaction_create_success by metis
  then show ?thesis
    by (simp add: map_of_set_id)
qed

theorem create_returns_callers_object_witness:
  "fst (FbDataStore_create Browser ''users'' 0 (store_of [(''name'', VStr ''A'')])) = Inr 0
   \<and> fst (FbTransaction_create Node ''users'' 0 (store_of [(''name'', VStr ''A'')])) = Inr 0
   \<and> objs (snd (FbDataStore_create Browser ''users'' 0 (store_of [(''name'', VStr ''A'')]))) 0
       = [(''name'', VStr ''A''), (''id'', VStr ''X0'')]
   \<and> objs (snd (FbTransaction_create Node ''users'' 0 (store_of [(''name'', VStr ''A'')]))) 0
       = [(''name'', VStr ''A''), (''id'', VStr ''X0'')]"
proof -
  let ?w = "store_of [(''name'', VStr ''A'')]"
  have h1: "fst (FbDataStore_create Browser ''users'' 0 ?w) = Inr 0"
    by code_simp
  have h2: "fst (FbTransaction_create Node ''users'' 0 ?w) = Inr 0"
    by code_simp
  have i: "set_id (fresh ?w (next_id ?w)) (objs ?w 0) = [(''name'', VStr ''A''), (''id'', VStr ''X0'')]"
    by code_simp
  have c1: "objs (snd (FbDataStore_create Browser ''users'' 0 ?w)) 0
            = [(''name'', VStr ''A''), (''id'', VStr ''X0'')]"
    using create_returns_callers_object [of "FbDataStore_create Browser" Browser "''users''" 0 ?w 0, OF _ h1] i
    by simp
  have c2: "objs (snd (FbTransaction_create Node ''users'' 0 ?w)) 0
            = [(''name'', VStr ''A''), (''id'', VStr ''X0'')]"
    using create_returns_callers_object [of "FbTransaction_create Node" Node "''users''" 0 ?w 0, OF _ h2] i
    by simp
  show ?thesis
    using h1 h2 c1 c2 by simp
qed

section \<open>mirror of a primary that does not exist\<close>

text \<open>
  Claim C2. \<^verbatim>\<open>mirror\<close> called without \<^verbatim>\<open>data\<close>, with a primary key and mirror keys
  that are well-formed document paths, for a primary key under which the store holds no
  document and whose read the store answers, rejects with the error
  \<^verbatim>\<open>No such object <primaryKey>\<close> that the source raises for a missing primary, leaves
  every document as it was, and has asked the store for nothing but the one read: no
  write to any mirror path. This holds for every such list of mirror keys.
\<close>

theorem mirror_missing_primary:
  assumes "is_doc_path primaryKey"
    and "list_all is_doc_path mirrorKeys"
    and "map_of (docs w) (segments primaryKey) = None"
    and "fails w (OpGet (segments primaryKey)) = None"
  shows "fst (FbDataStore_mirror b primaryKey mirrorKeys None w)
           = Inl (Error (''No such object '' @ primaryKey))
    \<and> docs (snd (FbDataStore_mirror b primaryKey mirrorKeys None w)) = docs w
    \<and> ops (snd (FbDataStore_mirror b primaryKey mirrorKeys None w))
        = ops w @ [OpGet (segments primaryKey)]"
  using assms(3,4)
  by (simp add: FbDataStore_mirror_def doc_get_def issue_def Let_def)

theorem mirror_missing_primary_witness:
  "is_doc_path ''users/u1''
   \<and> list_all is_doc_path [''index/u1'', ''byName/u1'']
   \<and> map_of (docs (store_of [])) (segments ''users/u1'') = None
   \<and> fails (store_of []) (OpGet (segments ''users/u1'')) = None
   \<and> fst (FbDataStore_mirror Browser ''users/u1'' [''index/u1'', ''byName/u1''] None (store_of []))
       = Inl (Error ''No such object users/u1'')
   \<and> docs (snd (FbDataStore_mirror Browser ''users/u1'' [''index/u1'', ''byName/u1''] None
         (store_of []))) = []
   \<and> ops (snd (FbDataStore_mirror Browser ''users/u1'' [''index/u1'', ''byName/u1''] None
         (store_of []))) = [OpGet [''users'', ''u1'']]"
proof -
  have p1: "is_doc_path ''users/u1''"
    by code_simp
  have p2: "list_all is_doc_path [''index/u1'', ''byName/u1'']"
    by code_simp
  have h1: "map_of (docs (store_of [])) (segments ''users/u1'') = None"
    by code_simp
  have h2: "fails (store_of []) (OpGet (segments ''users/u1'')) = None"
    by code_simp
  have s: "segments ''users/u1'' = [''users'', ''u1'']" "docs (store_of []) = []"
    "ops (store_of []) = []"
    by code_simp+
  show ?thesis
    using mirror_missing_primary [OF p1 p2 h1 h2, of Browser] p1 p2 h1 h2 s
    by simp
qed

section \<open>createAndMirror\<close>

text \<open>
  Claim C1, at \<^verbatim>\<open>createAndMirror('users', {name:'A'}, ['index/:id'])\<close> on an empty store.
  After the transaction has committed, the operation goes on to add a second document
  and to read and write outside any transaction. When the store refuses the plain
  \<^verbatim>\<open>set\<close> of that second mirror write, the operation rejects and both created
  documents are still there.
\<close>

theorem createAndMirror_writes_outside_transaction:
  "ops (snd (FbDataStore_createAndMirror Browser ''users'' 0 [''index/:id'']
        (store_of [(''name'', VStr ''A'')])))
   = [OpTxnSet [''users'', ''X0''] [(''name'', VStr ''A'')],
      OpTxnSet [''index'', ''X0''] [(''name'', VStr ''A''), (''id'', VStr ''X0'')],
      OpCommit [WSet [''users'', ''X0''] [(''name'', VStr ''A'')],
                WSet [''index'', ''X0''] [(''name'', VStr ''A''), (''id'', VStr ''X0'')]],
      OpAdd [''users''] [(''name'', VStr ''A''), (''id'', VStr ''X0'')],
      OpGet [''users'', ''X1''],
      OpSet [''index'', ''X1''] [(''name'', VStr ''A''), (''id'', VStr ''X0'')]]
   \<and> fst (FbDataStore_createAndMirror Browser ''users'' 0 [''index/:id'']
        (refusing is_OpSet (store_of [(''name'', VStr ''A'')]))) = Inl permission_denied
   \<and> docs (snd (FbDataStore_createAndMirror Browser ''users'' 0 [''index/:id'']
        (refusing is_OpSet (store_of [(''name'', VStr ''A'')]))))
     = [([''users'', ''X0''], [(''name'', VStr ''A'')]),
        ([''index'', ''X0''], [(''name'', VStr ''A''), (''id'', VStr ''X0'')]),
        ([''users'', ''X1''], [(''name'', VStr ''A''), (''id'', VStr ''X0'')])]"
  by code_simp

text \<open>
  Claim C3, at the same call with nothing refused. The call returns the caller's object
  with the id \<^verbatim>\<open>X1\<close>; the collection \<^verbatim>\<open>users\<close> holds two new documents, \<^verbatim>\<open>X0\<close> and
  \<^verbatim>\<open>X1\<close>; and the document at \<^verbatim>\<open>index/X1\<close> carries the id \<^verbatim>\<open>X0\<close>.
\<close>

theorem createAndMirror_users_example:
  "fst (FbDataStore_createAndMirror Browser ''users'' 0 [''index/:id'']
        (store_of [(''name'', VStr ''A'')])) = Inr 0
   \<and> objs (snd (FbDataStore_createAndMirror Browser ''users'' 0 [''index/:id'']
        (store_of [(''name'', VStr ''A'')]))) 0 = [(''name'', VStr ''A''), (''id'', VStr ''X1'')]
   \<and> docs (snd (FbDataStore_createAndMirror Browser ''users'' 0 [''index/:id'']
        (store_of [(''name'', VStr ''A'')])))
     = [([''users'', ''X0''], [(''name'', VStr ''A'')]),
        ([''index'', ''X0''], [(''name'', VStr ''A''), (''id'', VStr ''X0'')]),
        ([''users'', ''X1''], [(''name'', VStr ''A''), (''id'', VStr ''X0'')]),
        ([''index'', ''X1''], [(''name'', VStr ''A''), (''id'', VStr ''X0'')])]"
  by code_simp

section \<open>The id of a document read\<close>

text \<open>
  Claim C5, on a store holding \<^verbatim>\<open>{x: 1}\<close> at \<^verbatim>\<open>a/1\<close>. The transaction's \<^verbatim>\<open>read\<close> (in
  both bindings) and \<^verbatim>\<open>readAll\<close>, and the query's \<^verbatim>\<open>get\<close>, return the document without
  an \<^verbatim>\<open>id\<close>; the facade's \<^verbatim>\<open>read\<close> and \<^verbatim>\<open>listAll\<close> return it with the id \<^verbatim>\<open>1\<close>.
\<close>

theorem transaction_and_query_reads_lack_id:
  "fst (FbDataStore_transact (FbTransaction_read Browser ''a/1'')
         ((store_of [])\<lparr>docs := [([''a'', ''1''], [(''x'', VNum 1)])]\<rparr>))
     = Inr (Some [(''x'', VNum 1)])
   \<and> fst (FbDataStore_transact (FbTransaction_read Node ''a/1'')
         ((store_of [])\<lparr>docs := [([''a'', ''1''], [(''x'', VNum 1)])]\<rparr>))
     = Inr (Some [(''x'', VNum 1)])
   \<and> fst (FbDataStore_transact (FbTransaction_readAll [''a/1''])
         ((store_of [])\<lparr>docs := [([''a'', ''1''], [(''x'', VNum 1)])]\<rparr>))
     = Inr [Some [(''x'', VNum 1)]]
   \<and> fst (FbQuery_get (FbDataStore_query ''a'')
         ((store_of [])\<lparr>docs := [([''a'', ''1''], [(''x'', VNum 1)])]\<rparr>))
     = Inr [[(''x'', VNum 1)]]
   \<and> fst (FbDataStore_read Browser ''a/1''
         ((store_of [])\<lparr>docs := [([''a'', ''1''], [(''x'', VNum 1)])]\<rparr>))
     = Inr (Some [(''x'', VNum 1), (''id'', VStr ''1'')])
   \<and> fst (FbDataStore_listAll Browser ''a'' None
         ((store_of [])\<lparr>docs := [([''a'', ''1''], [(''x'', VNum 1)])]\<rparr>))
     = Inr [[(''x'', VNum 1), (''id'', VStr ''1'')]]"
  by code_simp

section \<open>Who assigns the id of a created document\<close>

text \<open>
  Claim C9 as stated fails: \<^verbatim>\<open>create('users', {id:'mine', name:'A'})\<close> stores the caller's
  \<^verbatim>\<open>id\<close> field with the document.
\<close>

theorem create_stores_callers_id:
  "map_of (docs (snd (FbDataStore_create Browser ''users'' 0
       (store_of [(''id'', VStr ''mine''), (''name'', VStr ''A'')])))) [''users'', ''X0'']
   = Some [(''id'', VStr ''mine''), (''name'', VStr ''A'')]"
  by code_simp

text \<open>
  Claim C9, amended. A successful \<^verbatim>\<open>create\<close> places the document under the collection
  at the id the store hands out next, whatever the caller's object holds, and the
  returned object carries that id. What is written (to the store by the facade, to the
  staged writes by a transaction) is the caller's object as it was passed, with any
  \<^verbatim>\<open>id\<close> field it had.
\<close>

theorem create_id_assigned_by_store:
  "(fst (FbDataStore_create b collectionPath data w) = Inr r \<longrightarrow>
      docs (snd (FbDataStore_create b collectionPath data w))
        = AList.update (segments collectionPath @ [fresh w (next_id w)]) (objs w data) (docs w)
      \<and> map_of (objs (snd (FbDataStore_create b collectionPath data w)) r) ''id''
        = Some (VStr (fresh w (next_id w))))
   \<and> (fst (FbTransaction_create b collectionPath data w) = Inr r \<longrightarrow>
      staged (snd (FbTransaction_create b collectionPath data w))
        = staged w @ [WSet (segments collectionPath @ [fresh w (next_id w)]) (objs w data)]
      \<and> map_of (objs (snd (FbTransaction_create b collectionPath data w)) r) ''id''
        = Some (VStr (fresh w (next_id w))))"
  by (auto simp: FbDataStore_create_def FbTransaction_create_def col_add_def txn_stage_def
      new_doc_def issue_def handleError_def log_def Let_def ref_id_new map_of_set_id
      split: option.splits binding.splits)

theorem create_id_assigned_by_store_witness:
  "fst (FbDataStore_create Browser ''users'' 0 (store_of [(''id'', VStr ''mine'')])) = Inr 0
   \<and> fst (FbTransaction_create Browser ''users'' 0 (store_of [(''id'', VStr ''mine'')])) = Inr 0
   \<and> docs (snd (FbDataStore_create Browser ''users'' 0 (store_of [(''id'', VStr ''mine'')])))
       = [([''users'', ''X0''], [(''id'', VStr ''mine'')])]
   \<and> staged (snd (FbTransaction_create Browser ''users'' 0 (store_of [(''id'', VStr ''mine'')])))
       = [WSet [''users'', ''X0''] [(''id'', VStr ''mine'')]]
   \<and> map_of (objs (snd (FbDataStore_create Browser ''users'' 0
         (store_of [(''id'', VStr ''mine'')]))) 0) ''id'' = Some (VStr ''X0'')"
proof -
  let ?w = "store_of [(''id'', VStr ''mine'')]"
  have h1: "fst (FbDataStore_create Browser ''users'' 0 ?w) = Inr 0"
    by code_simp
  have h2: "fst (FbTransaction_create Browser ''users'' 0 ?w) = Inr 0"
    by code_simp
  have s: "AList.update (segments ''users'' @ [fresh ?w (next_id ?w)]) (objs ?w 0) (docs ?w)
             = [([''users'', ''X0''], [(''id'', VStr ''mine'')])]"
    "staged ?w @ [WSet (segments ''users'' @ [fresh ?w (next_id ?w)]) (objs ?w 0)]
             = [WSet [''users'', ''X0''] [(''id'', VStr ''mine'')]]"
    "fresh ?w (next_id ?w) = ''X0''"
    by code_simp+
  show ?thesis
    using create_id_assigned_by_store [of Browser "''users''" 0 ?w 0] h1 h2 s
    by simp
qed

section \<open>multiUpdate\<close>

subsection \<open>The order of settlement\<close>




subsection \<open>Fields of documents under merges\<close>






















section \<open>What a failed update logs\<close>

text \<open>
  Claim C6 fails in \<^verbatim>\<open>update\<close>. Its catch block calls \<^verbatim>\<open>handleError\<close> without the data,
  unlike those of \<^verbatim>\<open>set\<close> and \<^verbatim>\<open>create\<close>. When the store refuses
  \<^verbatim>\<open>update('a/1', {x: 1})\<close>, the call rejects with the store's error and the error is
  logged, but the payload is not: the browser binding logs no data at all and the server
  binding logs \<^verbatim>\<open>undefined\<close> under \<^verbatim>\<open>Data being set:\<close>. The same refusal of
  \<^verbatim>\<open>set('a/1', {x: 1})\<close> logs the payload in both bindings.
\<close>

theorem update_failure_log_omits_payload:
  "fst (FbDataStore_update Browser ''a/1'' [(''x'', VNum 1)]
         (refusing (writes_to [''a'', ''1'']) (store_of []))) = Inl permission_denied
   \<and> prints (LErr permission_denied)
        (console (snd (FbDataStore_update Browser ''a/1'' [(''x'', VNum 1)]
           (refusing (writes_to [''a'', ''1'']) (store_of [])))))
   \<and> \<not> prints (LObj [(''x'', VNum 1)])
        (console (snd (FbDataStore_update Browser ''a/1'' [(''x'', VNum 1)]
           (refusing (writes_to [''a'', ''1'']) (store_of [])))))
   \<and> fst (FbDataStore_update Node ''a/1'' [(''x'', VNum 1)]
         (refusing (writes_to [''a'', ''1'']) (store_of []))) = Inl permission_denied
   \<and> prints (LErr permission_denied)
        (console (snd (FbDataStore_update Node ''a/1'' [(''x'', VNum 1)]
           (refusing (writes_to [''a'', ''1'']) (store_of [])))))
   \<and> prints LUndefined
        (console (snd (FbDataStore_update Node ''a/1'' [(''x'', VNum 1)]
           (refusing (writes_to [''a'', ''1'']) (store_of [])))))
   \<and> \<not> prints (LObj [(''x'', VNum 1)])
        (console (snd (FbDataStore_update Node ''a/1'' [(''x'', VNum 1)]
           (refusing (writes_to [''a'', ''1'']) (store_of [])))))
   \<and> prints (LObj [(''x'', VNum 1)])
        (console (snd (FbDataStore_set Browser ''a/1'' [(''x'', VNum 1)]
           (refusing (writes_to [''a'', ''1'']) (store_of [])))))
   \<and> prints (LObj [(''x'', VNum 1)])
        (console (snd (FbDataStore_set Node ''a/1'' [(''x'', VNum 1)]
           (refusing (writes_to [''a'', ''1'']) (store_of [])))))"
  by code_simp

section \<open>The browser binding and the server binding\<close>


lemma same_store_log [simp]:
  "same_store (log c1 w1) w2 = same_store w1 w2"
  "same_store w1 (log c2 w2) = same_store w1 w2"
  by (simp_all add: same_store_def log_def)









































section \<open>Unsubscribing from a feed\<close>

lemma run_snoc: "run options (evs @ [ev]) = step options ev (run options evs)"
  by (simp add: run_def)

lemma run_append: "run options (evs @ later) = fold (step options) later (run options evs)"
  by (simp add: run_def)

lemma feed_inv_init: "feed_inv lazyConnection"
  by (simp add: feed_inv_def lazyConnection_def)

lemma feed_inv_step: "feed_inv f \<Longrightarrow> feed_inv (step options ev f)"
  by (cases ev)
     (auto simp: feed_inv_def step_def subscribe_def unsubscribe_def subject_next_def
        subject_error_def connect_def start_def teardown_def stop_def Let_def
        split: option.splits if_splits)

lemma feed_inv_run: "feed_inv (run options evs)"
  by (induction evs rule: rev_induct) (simp_all add: run_def feed_inv_init feed_inv_step)

lemma stale_step: "stale l f \<Longrightarrow> stale l (step options ev f)"
  by (cases ev)
     (auto simp: stale_def step_def subscribe_def unsubscribe_def subject_next_def
        subject_error_def connect_def start_def teardown_def stop_def Let_def
        split: option.splits if_splits)

lemma stale_fold: "stale l f \<Longrightarrow> stale l (fold (step options) evs f)"
  by (induction evs arbitrary: f) (simp_all add: stale_step)

lemma stale_snapshot: "stale l f \<Longrightarrow> step options (Snapshot l snap) f = f"
  by (simp add: stale_def step_def subject_next_def)

lemma quiet_step:
  "quiet f \<Longrightarrow> \<not> is_Subscribe ev \<Longrightarrow>
   quiet (step options ev f) \<and> delivered (step options ev f) = delivered f"
  by (cases ev)
     (auto simp: quiet_def is_Subscribe_def step_def unsubscribe_def subject_next_def
        subject_error_def Let_def split: option.splits)

lemma quiet_fold:
  "quiet f \<Longrightarrow> \<forall>ev \<in> set evs. \<not> is_Subscribe ev \<Longrightarrow>
   delivered (fold (step options) evs f) = delivered f"
proof (induction evs arbitrary: f)
  case Nil
  then show ?case by simp
next
  case (Cons ev evs)
  then show ?case
    using quiet_step [of f ev options] by simp
qed

lemma removeAll_only: "set xs \<subseteq> {y} \<Longrightarrow> removeAll y xs = []"
  by (induction xs) auto

lemma unsubscribe_last_consumer:
  assumes "feed_inv f" and "consumers f = [c]"
  shows "\<exists>l. connection f = Some l
           \<and> requests (step options (Unsubscribe c) f) = requests f @ [Unlisten l]
           \<and> stale l (step options (Unsubscribe c) f)"
    and "listeners (step options (Unsubscribe c) f) = []"
    and "quiet (step options (Unsubscribe c) f)"
    and "delivered (step options (Unsubscribe c) f) = delivered f"
  using assms
  by (auto simp: feed_inv_def quiet_def stale_def step_def unsubscribe_def teardown_def stop_def
      Let_def removeAll_only split: option.splits)

text \<open>
  Claim C7. Take any feed (the options of \<^verbatim>\<open>watch\<close>, \<^verbatim>\<open>watchAll\<close> or
  \<^verbatim>\<open>watchForChanges\<close>, in either binding) after any events that leave \<open>c\<close> as its only
  consumer. In the step in which \<open>c\<close> unsubscribes, the feed asks the store to remove
  the listener \<open>l\<close> of its connection, and no listener stays registered. Whatever
  happens next short of a new subscription (late snapshots, listener errors, repeated
  unsubscribes) delivers nothing to anyone. And a snapshot callback of the removed
  listener \<open>l\<close> delivers nothing however late it fires, even after new consumers
  have subscribed.
\<close>

theorem last_unsubscribe_tears_down:
  assumes "consumers (run options evs) = [c]"
    and "\<forall>ev \<in> set late. \<not> is_Subscribe ev"
  shows "\<exists>l. connection (run options evs) = Some l
           \<and> requests (run options (evs @ [Unsubscribe c]))
               = requests (run options evs) @ [Unlisten l]
           \<and> listeners (run options (evs @ [Unsubscribe c])) = []
           \<and> delivered (run options (evs @ Unsubscribe c # late)) = delivered (run options evs)
           \<and> delivered (run options (evs @ Unsubscribe c # later @ [Snapshot l snap]))
               = delivered (run options (evs @ Unsubscribe c # later))"
proof -
  let ?f = "run options evs"
  let ?g = "step options (Unsubscribe c) ?f"
  have inv: "feed_inv ?f"
    by (rule feed_inv_run)
  obtain l where l: "connection ?f = Some l"
    and req: "requests ?g = requests ?f @ [Unlisten l]"
    and st: "stale l ?g"
    using unsubscribe_last_consumer(1) [OF inv assms(1), of options] by blast
  have ls: "listeners ?g = []" and q: "quiet ?g" and d: "delivered ?g = delivered ?f"
    using unsubscribe_last_consumer(2-4) [OF inv assms(1), of options] by simp_all
  have g: "run options (evs @ [Unsubscribe c]) = ?g"
    by (rule run_snoc)
  have after: "run options (evs @ Unsubscribe c # xs) = fold (step options) xs ?g" for xs
    using run_append [of options "evs @ [Unsubscribe c]" xs] g by simp
  have late: "delivered (run options (evs @ Unsubscribe c # late)) = delivered ?f"
    using quiet_fold [OF q assms(2), of options] d after by simp
  have "stale l (fold (step options) later ?g)"
    using st by (rule stale_fold)
  then have "step options (Snapshot l snap) (fold (step options) later ?g)
             = fold (step options) later ?g"
    by (rule stale_snapshot)
  then have stale_cb: "delivered (run options (evs @ Unsubscribe c # later @ [Snapshot l snap]))
               = delivered (run options (evs @ Unsubscribe c # later))"
    using after [of "later @ [Snapshot l snap]"] after [of later] by simp
  show ?thesis
    using l req ls late stale_cb g by auto
qed

theorem last_unsubscribe_tears_down_witness:
  "consumers (run (FbDataStore_watch Browser ''a/1'')
      [Subscribe 0, Snapshot 0 (Some [(''x'', VNum 1)])]) = [0]
   \<and> \<not> is_Subscribe (Snapshot 0 (Some [(''x'', VNum 2)]))
   \<and> \<not> is_Subscribe (ListenerError 0 permission_denied :: obj option event)
   \<and> connection (run (FbDataStore_watch Browser ''a/1'')
      [Subscribe 0, Snapshot 0 (Some [(''x'', VNum 1)])]) = Some 0
   \<and> requests (run (FbDataStore_watch Browser ''a/1'')
      [Subscribe 0, Snapshot 0 (Some [(''x'', VNum 1)]), Unsubscribe 0])
      = [OnSnapshot (DocTarget [''a'', ''1'']) True 0, Unlisten 0]
   \<and> delivered (run (FbDataStore_watch Browser ''a/1'')
      [Subscribe 0, Snapshot 0 (Some [(''x'', VNum 1)]), Unsubscribe 0,
       Snapshot 0 (Some [(''x'', VNum 2)]), ListenerError 0 permission_denied])
      = [(0, Next (Some [(''x'', VNum 1)]))]
   \<and> delivered (run (FbDataStore_watch Browser ''a/1'')
      [Subscribe 0, Snapshot 0 (Some [(''x'', VNum 1)]), Unsubscribe 0,
       Subscribe 1, Snapshot 0 (Some [(''x'', VNum 2)])])
      = [(0, Next (Some [(''x'', VNum 1)]))]"
proof -
  let ?o = "FbDataStore_watch Browser ''a/1''"
  let ?evs = "[Subscribe 0, Snapshot 0 (Some [(''x'', VNum 1)])]"
  let ?late = "[Snapshot 0 (Some [(''x'', VNum 2)]), ListenerError 0 permission_denied]"
  have h1: "consumers (run ?o ?evs) = [0]"
    by code_simp
  have h2: "\<forall>ev \<in> set ?late. \<not> is_Subscribe ev"
    by (simp add: is_Subscribe_def)
  have c: "connection (run ?o ?evs) = Some 0"
    by code_simp
  have r: "requests (run ?o ?evs) = [OnSnapshot (DocTarget [''a'', ''1'']) True 0]"
    by code_simp
  have d: "delivered (run ?o ?evs) = [(0, Next (Some [(''x'', VNum 1)]))]"
    by code_simp
  have d2: "delivered (run ?o (?evs @ Unsubscribe 0 # [Subscribe 1]))
              = [(0, Next (Some [(''x'', VNum 1)]))]"
    by code_simp
  show ?thesis
    using last_unsubscribe_tears_down
            [OF h1 h2, of "[Subscribe 1]" "Some [(''x'', VNum 2)]"] h1 c r d d2
    by (simp add: is_Subscribe_def)
qed

end
